theory Spec2Isabelle
  imports Main "HOL-Library.Sublist"
begin

section \<open>Python values and the builtins the agent relies on\<close>

text \<open>
  The extraction backend hands back an arbitrary Python value (normally the \<^verbatim>\<open>dict\<close>
  decoded from a JSON body). Strings are byte strings (UTF-8); dictionaries are association
  lists with string keys, looked up with \<open>map_of\<close>. Floats stay abstract (type \<open>'f\<close>):
  only their rendering and their truth value are used, and both are taken from the
  interpreter (\<open>py_builtins\<close>), together with \<^verbatim>\<open>repr\<close> of a string and the two
  string methods that depend on the Unicode character tables: \<^verbatim>\<open>str.lower\<close>, and
  \<^verbatim>\<open>str.isupper\<close> on a string of one character.
\<close>

datatype 'f pyval =
    PNone
  | PBool bool
  | PInt int
  | PFloat 'f
  | PStr string
  | PList "'f pyval list"
  | PDict "(string \<times> 'f pyval) list"

datatype py_error =
    KeyError string
  | AttributeError string
  | TypeError string
  | ExternalError string

record 'f py_builtins =
  float_repr :: "'f \<Rightarrow> string"
  float_nonzero :: "'f \<Rightarrow> bool"
  str_repr :: "string \<Rightarrow> string"
  str_lower :: "string \<Rightarrow> string"
  char_isupper :: "string \<Rightarrow> bool"

text \<open>Truth value of an object, as tested by \<^verbatim>\<open>if\<close> and \<^verbatim>\<open>and\<close>.\<close>

fun truthy :: "'f py_builtins \<Rightarrow> 'f pyval \<Rightarrow> bool" where
  "truthy P PNone = False"
| "truthy P (PBool b) = b"
| "truthy P (PInt i) = (i \<noteq> 0)"
| "truthy P (PFloat x) = float_nonzero P x"
| "truthy P (PStr s) = (s \<noteq> [])"
| "truthy P (PList xs) = (xs \<noteq> [])"
| "truthy P (PDict kvs) = (kvs \<noteq> [])"

fun isinstance_dict :: "'f pyval \<Rightarrow> bool" where
  "isinstance_dict (PDict kvs) = True"
| "isinstance_dict v = False"

text \<open>\<^verbatim>\<open>obj[key]\<close> with a string key: KeyError on a dict without the key.\<close>

fun getitem :: "'f pyval \<Rightarrow> string \<Rightarrow> py_error + 'f pyval" where
  "getitem (PDict kvs) k = (case map_of kvs k of None \<Rightarrow> Inl (KeyError k) | Some v \<Rightarrow> Inr v)"
| "getitem v k = Inl (TypeError ''subscript'')"

text \<open>\<^verbatim>\<open>obj.get(key, default)\<close>: only a dict has the method.\<close>

fun get_method :: "'f pyval \<Rightarrow> string \<Rightarrow> 'f pyval \<Rightarrow> py_error + 'f pyval" where
  "get_method (PDict kvs) k d = Inr (case map_of kvs k of None \<Rightarrow> d | Some v \<Rightarrow> v)"
| "get_method v k d = Inl (AttributeError ''get'')"

subsection \<open>Strings\<close>

text \<open>The upper-case letters of Basic Latin, \<^verbatim>\<open>A\<close> to \<^verbatim>\<open>Z\<close>.\<close>

definition ascii_upper :: "char \<Rightarrow> bool" where
  "ascii_upper c = (65 \<le> (of_char c :: nat) \<and> (of_char c :: nat) \<le> 90)"

fun join :: "string \<Rightarrow> string list \<Rightarrow> string" where
  "join sep [] = []"
| "join sep [x] = x"
| "join sep (x # y # ys) = x @ sep @ join sep (y # ys)"

fun nat_str :: "nat \<Rightarrow> string" where
  "nat_str n =
     (if n < 10 then [char_of (48 + n)]
      else nat_str (n div 10) @ [char_of (48 + n mod 10)])"

declare nat_str.simps [simp del]

definition int_repr :: "int \<Rightarrow> string" where
  "int_repr i = (if i < 0 then ''-'' @ nat_str (nat (- i)) else nat_str (nat i))"

fun py_repr :: "'f py_builtins \<Rightarrow> 'f pyval \<Rightarrow> string" where
  "py_repr P PNone = ''None''"
| "py_repr P (PBool b) = (if b then ''True'' else ''False'')"
| "py_repr P (PInt i) = int_repr i"
| "py_repr P (PFloat x) = float_repr P x"
| "py_repr P (PStr s) = str_repr P s"
| "py_repr P (PList xs) = ''['' @ join '', '' (map (py_repr P) xs) @ '']''"
| "py_repr P (PDict kvs) =
     ''{'' @ join '', '' (map (\<lambda>kv. str_repr P (fst kv) @ '': '' @ py_repr P (snd kv)) kvs) @ ''}''"

text \<open>What an f-string puts in for \<^verbatim>\<open>{value}\<close>: \<^verbatim>\<open>str(value)\<close>.\<close>

fun py_str :: "'f py_builtins \<Rightarrow> 'f pyval \<Rightarrow> string" where
  "py_str P (PStr s) = s"
| "py_str P v = py_repr P v"

section \<open>The two external services\<close>

datatype schema = PropertiesResponse | LocationsResponse

text \<open>
  Each service answers a request with a value or raises. Every call made is appended to
  a log, so that "the summarizer is (not) invoked" is a statement about the log.
\<close>

record 'f services =
  firecrawl_extract :: "string list \<Rightarrow> string \<Rightarrow> schema \<Rightarrow> py_error + 'f pyval"
  agent_run :: "string \<Rightarrow> py_error + string"

datatype event =
    Extract "string list" string schema
  | Run string

section \<open>find_properties\<close>

definition property_urls :: "'f py_builtins \<Rightarrow> string \<Rightarrow> string list" where
  "property_urls P city =
     (let formatted_location = str_lower P city in
      [''https://www.squareyards.com/sale/property-for-sale-in-'' @ formatted_location @ ''/*'',
       ''https://www.99acres.com/property-in-'' @ formatted_location @ ''-ffid/*'',
       ''https://housing.com/in/buy/'' @ formatted_location @ ''/'' @ formatted_location])"

definition property_type_prompt :: "string \<Rightarrow> string" where
  "property_type_prompt property_type =
     (if property_type = ''Flat'' then ''Flats'' else ''Individual Houses'')"

definition extraction_prompt :: "'f py_builtins \<Rightarrow> string \<Rightarrow> 'f \<Rightarrow> string \<Rightarrow> string \<Rightarrow> string" where
  "extraction_prompt P city max_price property_category property_type =
     ''Extract up to 10 different '' @ property_category @ '' '' @
     property_type_prompt property_type @ '' in '' @ city @ '' under '' @
     float_repr P max_price @ '' crores.\<newline>'' @
     ''                \<newline>'' @
     ''                Data Extraction Criteria:\<newline>'' @
     ''                - Category: '' @ property_category @ ''\<newline>'' @
     ''                - Property Type: '' @ property_type_prompt property_type @ ''\<newline>'' @
     ''                - Maximum Price: '' @ float_repr P max_price @ '' \<newline>'' @
     ''                - Location: '' @ city @ ''\<newline>'' @
     ''                - At least 3 and up to 10 properties\<newline>'' @
     ''                - Include key details like name, price, location, and amenities\<newline>'' @
     ''                \<newline>'' @
     ''                Return the data in JSON format based on the schema.\<newline>'' @
     ''                ''"

text \<open>
  The test \<^verbatim>\<open>isinstance(raw_response, dict) and raw_response.get('success')\<close>; the
  right operand is evaluated on a dict only.
\<close>

definition response_ok :: "'f py_builtins \<Rightarrow> 'f pyval \<Rightarrow> bool" where
  "response_ok P raw_response =
     (isinstance_dict raw_response \<and>
      (case get_method raw_response ''success'' PNone of
         Inl e \<Rightarrow> False
       | Inr v \<Rightarrow> truthy P v))"

definition select_properties :: "'f py_builtins \<Rightarrow> 'f pyval \<Rightarrow> py_error + 'f pyval" where
  "select_properties P raw_response =
     (if response_ok P raw_response then
        (case getitem raw_response ''data'' of
           Inl e \<Rightarrow> Inl e
         | Inr data \<Rightarrow> get_method data ''properties'' (PList []))
      else Inr (PList []))"

definition analysis_prompt :: "'f py_builtins \<Rightarrow> string \<Rightarrow> 'f pyval \<Rightarrow> 'f \<Rightarrow> string" where
  "analysis_prompt P city properties max_price =
     ''Juno Montera Market Analysis - '' @ city @ ''\<newline>'' @
     ''            \<newline>'' @
     ''            Properties Data:\<newline>'' @
     ''            '' @ py_str P properties @ ''\<newline>'' @
     ''\<newline>'' @
     ''            **Analysis Requirements:**\<newline>'' @
     ''            - Select 5-6 properties closest to '' @ float_repr P max_price @ '' crores.\<newline>'' @
     ''            - Highlight key features, price, and investment potential in commercial real estate.\<newline>'' @
     ''            - Provide a structured breakdown including:\<newline>'' @
     ''              '' @ [CHR 0xF0, CHR 0x9F, CHR 0x8F, CHR 0xA2] @ '' **Selected Commercial Properties**\<newline>'' @
     ''              '' @ [CHR 0xF0, CHR 0x9F, CHR 0x92, CHR 0xBC] @ '' **Best Value Analysis for Investors**\<newline>'' @
     ''              '' @ [CHR 0xF0, CHR 0x9F, CHR 0x93, CHR 0x8D] @ '' **Location Insights for Brokers**\<newline>'' @
     ''              '' @ [CHR 0xF0, CHR 0x9F, CHR 0x92, CHR 0xA1] @ '' **Investment Recommendations for Lenders**\<newline>'' @
     ''              '' @ [CHR 0xF0, CHR 0x9F, CHR 0xA4, CHR 0x9D] @ '' **Negotiation Tips for Borrowers**\<newline>'' @
     ''            ''"

text \<open>
  The whole method: the extraction call, the selection of the records, the summarization
  call. An exception of either service, or of the selection, ends the method there.
\<close>

definition find_properties ::
  "'f py_builtins \<Rightarrow> 'f services \<Rightarrow> string \<Rightarrow> 'f \<Rightarrow> string \<Rightarrow> string \<Rightarrow> event list
     \<Rightarrow> (py_error + string) \<times> event list" where
  "find_properties P S city max_price property_category property_type log =
     (let urls = property_urls P city;
          prompt = extraction_prompt P city max_price property_category property_type;
          log1 = log @ [Extract urls prompt PropertiesResponse]
      in case firecrawl_extract S urls prompt PropertiesResponse of
           Inl e \<Rightarrow> (Inl e, log1)
         | Inr raw_response \<Rightarrow>
             (case select_properties P raw_response of
                Inl e \<Rightarrow> (Inl e, log1)
              | Inr properties \<Rightarrow>
                  (let question = analysis_prompt P city properties max_price
                   in (agent_run S question, log1 @ [Run question]))))"

section \<open>get_location_trends\<close>

definition trend_urls :: "'f py_builtins \<Rightarrow> string \<Rightarrow> string list" where
  "trend_urls P city =
     [''https://www.99acres.com/property-rates-and-price-trends-in-'' @ str_lower P city @
      ''-prffid/*'']"

definition trend_extraction_prompt :: string where
  "trend_extraction_prompt =
     ''Extract price trends data for ALL major localities in the city. \<newline>'' @
     ''            Ensure:\<newline>'' @
     ''            - Data for 5-10 localities.\<newline>'' @
     ''            - Cover premium and affordable locations.\<newline>'' @
     ''            - Format output as structured data.\<newline>'' @
     ''            ''"

definition trends_prompt :: "'f py_builtins \<Rightarrow> string \<Rightarrow> 'f pyval \<Rightarrow> string" where
  "trends_prompt P city locations =
     ''Juno Montera - Market Trends in '' @ city @ ''\<newline>'' @
     ''\<newline>'' @
     ''                '' @ [CHR 0xF0, CHR 0x9F, CHR 0x93, CHR 0x8A] @ '' **Summary of Location Price Trends in '' @ city @ ''**\<newline>'' @
     ''                '' @ py_str P locations @ ''\<newline>'' @
     ''\<newline>'' @
     ''                '' @ [CHR 0xF0, CHR 0x9F, CHR 0x8F, CHR 0x86] @ '' **Top Investment Areas in '' @ city @ ''**\<newline>'' @
     ''                - Highest price appreciation\<newline>'' @
     ''                - Best rental yields\<newline>'' @
     ''                - Most affordable with future potential\<newline>'' @
     ''\<newline>'' @
     ''                '' @ [CHR 0xF0, CHR 0x9F, CHR 0x8E, CHR 0xAF] @ '' **Recommendations for Investors in '' @ city @ ''**\<newline>'' @
     ''                - Best areas for long-term investment\<newline>'' @
     ''                - High-demand rental locations\<newline>'' @
     ''                - Growth corridors to watch\<newline>'' @
     ''                ''"

text \<open>
  The records the success branch reads; \<open>None\<close> when the branch is not taken, where the
  method builds no collection at all.
\<close>

definition select_locations :: "'f py_builtins \<Rightarrow> 'f pyval \<Rightarrow> py_error + 'f pyval option" where
  "select_locations P raw_response =
     (if response_ok P raw_response then
        (case getitem raw_response ''data'' of
           Inl e \<Rightarrow> Inl e
         | Inr data \<Rightarrow>
             (case get_method data ''locations'' (PList []) of
                Inl e \<Rightarrow> Inl e
              | Inr locations \<Rightarrow> Inr (Some locations)))
      else Inr None)"

definition get_location_trends ::
  "'f py_builtins \<Rightarrow> 'f services \<Rightarrow> string \<Rightarrow> event list \<Rightarrow> (py_error + string) \<times> event list" where
  "get_location_trends P S city log =
     (let urls = trend_urls P city;
          log1 = log @ [Extract urls trend_extraction_prompt LocationsResponse]
      in case firecrawl_extract S urls trend_extraction_prompt LocationsResponse of
           Inl e \<Rightarrow> (Inl e, log1)
         | Inr raw_response \<Rightarrow>
             (case select_locations P raw_response of
                Inl e \<Rightarrow> (Inl e, log1)
              | Inr (Some locations) \<Rightarrow>
                  (let question = trends_prompt P city locations
                   in (agent_run S question, log1 @ [Run question]))
              | Inr None \<Rightarrow> (Inr ''No price trends data available'', log1)))"

section \<open>Sample interpreter and services for concrete evaluations\<close>

text \<open>
  The sample interpreter stands for CPython on text made of Basic Latin and Latin-1
  Supplement characters, of U+0130, and of U+03D2 and U+1D400 (two upper-case characters
  without a lower-case mapping): on such text \<open>sample_lower\<close> is \<^verbatim>\<open>str.lower\<close>,
  working on the UTF-8 bytes. \<^verbatim>\<open>A\<close> to \<^verbatim>\<open>Z\<close> go to \<^verbatim>\<open>a\<close> to \<^verbatim>\<open>z\<close>;
  U+00C0 to U+00DE other than U+00D7 (bytes C3 80 to C3 9E other than C3 97) go 32 code
  points up; U+0130 (C4 B0) goes to \<^verbatim>\<open>i\<close> followed by U+0307 (CC 87); every other byte
  stays. \<open>sample_isupper\<close> is \<^verbatim>\<open>str.isupper\<close> on those one-character strings. A float
  is given by its \<^verbatim>\<open>repr\<close>, and \<^verbatim>\<open>repr\<close> of a string puts it between single quotes.
  The sample services answer every request with one fixed response.
\<close>

definition ascii_lower_char :: "char \<Rightarrow> char" where
  "ascii_lower_char c = (if ascii_upper c then char_of ((of_char c :: nat) + 32) else c)"

definition latin1_upper_tail :: "char \<Rightarrow> bool" where
  "latin1_upper_tail d =
     (128 \<le> (of_char d :: nat) \<and> (of_char d :: nat) \<le> 158 \<and> (of_char d :: nat) \<noteq> 151)"

fun sample_lower :: "string \<Rightarrow> string" where
  "sample_lower [] = []"
| "sample_lower [c] = [ascii_lower_char c]"
| "sample_lower (c # d # ds) =
     (if c = CHR 0xC3 \<and> latin1_upper_tail d then
        c # char_of ((of_char d :: nat) + 32) # sample_lower ds
      else if c = CHR 0xC4 \<and> d = CHR 0xB0 then
        CHR ''i'' # CHR 0xCC # CHR 0x87 # sample_lower ds
      else ascii_lower_char c # sample_lower (d # ds))"

fun sample_isupper :: "string \<Rightarrow> bool" where
  "sample_isupper [c] = ascii_upper c"
| "sample_isupper [c, d] =
     ((c = CHR 0xC3 \<and> latin1_upper_tail d) \<or> (c = CHR 0xC4 \<and> d = CHR 0xB0) \<or>
      (c = CHR 0xCF \<and> d = CHR 0x92))"
| "sample_isupper [a, b, c, d] =
     (a = CHR 0xF0 \<and> b = CHR 0x9D \<and> c = CHR 0x90 \<and> d = CHR 0x80)"
| "sample_isupper s = False"

definition sample_interpreter :: "string py_builtins" where
  "sample_interpreter =
     \<lparr>float_repr = (\<lambda>x. x),
      float_nonzero = (\<lambda>x. x \<noteq> ''0.0'' \<and> x \<noteq> ''-0.0''),
      str_repr = (\<lambda>s. [CHR 0x27] @ s @ [CHR 0x27]),
      str_lower = sample_lower,
      char_isupper = sample_isupper\<rparr>"

definition answering :: "'f pyval \<Rightarrow> string \<Rightarrow> 'f services" where
  "answering raw_response content =
     \<lparr>firecrawl_extract = (\<lambda>urls prompt sch. Inr raw_response),
      agent_run = (\<lambda>question. Inr content)\<rparr>"

text \<open>
  A response without a truthy success indicator: anything that is not a dict, a dict
  without the key \<^verbatim>\<open>success\<close>, or a dict whose \<^verbatim>\<open>success\<close> entry is falsy.
\<close>

definition no_truthy_success :: "'f py_builtins \<Rightarrow> 'f pyval \<Rightarrow> bool" where
  "no_truthy_success P raw_response =
     (case raw_response of
        PDict kvs \<Rightarrow> (case map_of kvs ''success'' of None \<Rightarrow> True | Some v \<Rightarrow> \<not> truthy P v)
      | _ \<Rightarrow> True)"

section \<open>Auxiliary facts\<close>

subsection \<open>Strings\<close>

lemma sublist_after: "sublist xs zs \<Longrightarrow> sublist xs (ys @ zs)"
  by (metis sublist_order.order.trans suffix_imp_sublist suffixI)

lemma py_str_empty_list: "py_str P (PList []) = ''[]''"
  by simp

subsection \<open>The success test\<close>

lemma response_ok_iff: "response_ok P raw = (\<not> no_truthy_success P raw)"
  by (cases raw) (auto simp: response_ok_def no_truthy_success_def split: option.splits)

lemma response_ok_dict:
  "map_of kvs ''success'' = Some v \<Longrightarrow> response_ok P (PDict kvs) = truthy P v"
  by (simp add: response_ok_def)

lemma select_properties_no_success:
  "no_truthy_success P raw \<Longrightarrow> select_properties P raw = Inr (PList [])"
  by (simp add: select_properties_def response_ok_iff)

lemma select_locations_no_success:
  "no_truthy_success P raw \<Longrightarrow> select_locations P raw = Inr None"
  by (simp add: select_locations_def response_ok_iff)

lemma select_properties_success:
  assumes "map_of kvs ''success'' = Some v" and "truthy P v"
    and "map_of kvs ''data'' = Some (PDict payload)"
  shows "select_properties P (PDict kvs) =
           Inr (case map_of payload ''properties'' of None \<Rightarrow> PList [] | Some records \<Rightarrow> records)"
  using assms by (simp add: select_properties_def response_ok_dict)

lemma select_locations_success:
  assumes "map_of kvs ''success'' = Some v" and "truthy P v"
    and "map_of kvs ''data'' = Some (PDict payload)"
  shows "select_locations P (PDict kvs) =
           Inr (Some (case map_of payload ''locations'' of
                        None \<Rightarrow> PList [] | Some records \<Rightarrow> records))"
  using assms by (simp add: select_locations_def response_ok_dict)

lemma select_properties_no_data:
  assumes "map_of kvs ''success'' = Some v" and "truthy P v" and "map_of kvs ''data'' = None"
  shows "select_properties P (PDict kvs) = Inl (KeyError ''data'')"
  using assms by (simp add: select_properties_def response_ok_dict)

lemma select_locations_no_data:
  assumes "map_of kvs ''success'' = Some v" and "truthy P v" and "map_of kvs ''data'' = None"
  shows "select_locations P (PDict kvs) = Inl (KeyError ''data'')"
  using assms by (simp add: select_locations_def response_ok_dict)

subsection \<open>The paths through the two methods\<close>

lemma find_properties_selected:
  assumes "firecrawl_extract S (property_urls P city)
             (extraction_prompt P city max_price property_category property_type)
             PropertiesResponse = Inr raw"
    and "select_properties P raw = Inr properties"
  shows "find_properties P S city max_price property_category property_type log =
           (agent_run S (analysis_prompt P city properties max_price),
            log @ [Extract (property_urls P city)
                     (extraction_prompt P city max_price property_category property_type)
                     PropertiesResponse,
                   Run (analysis_prompt P city properties max_price)])"
  using assms by (simp add: find_properties_def Let_def)

lemma find_properties_raised:
  assumes "firecrawl_extract S (property_urls P city)
             (extraction_prompt P city max_price property_category property_type)
             PropertiesResponse = Inr raw"
    and "select_properties P raw = Inl e"
  shows "find_properties P S city max_price property_category property_type log =
           (Inl e,
            log @ [Extract (property_urls P city)
                     (extraction_prompt P city max_price property_category property_type)
                     PropertiesResponse])"
  using assms by (simp add: find_properties_def Let_def)

lemma get_location_trends_selected:
  assumes "firecrawl_extract S (trend_urls P city) trend_extraction_prompt LocationsResponse = Inr raw"
    and "select_locations P raw = Inr (Some locations)"
  shows "get_location_trends P S city log =
           (agent_run S (trends_prompt P city locations),
            log @ [Extract (trend_urls P city) trend_extraction_prompt LocationsResponse,
                   Run (trends_prompt P city locations)])"
  using assms by (simp add: get_location_trends_def Let_def)

lemma get_location_trends_no_data:
  assumes "firecrawl_extract S (trend_urls P city) trend_extraction_prompt LocationsResponse = Inr raw"
    and "select_locations P raw = Inr None"
  shows "get_location_trends P S city log =
           (Inr ''No price trends data available'',
            log @ [Extract (trend_urls P city) trend_extraction_prompt LocationsResponse])"
  using assms by (simp add: get_location_trends_def Let_def)

lemma get_location_trends_raised:
  assumes "firecrawl_extract S (trend_urls P city) trend_extraction_prompt LocationsResponse = Inr raw"
    and "select_locations P raw = Inl e"
  shows "get_location_trends P S city log =
           (Inl e, log @ [Extract (trend_urls P city) trend_extraction_prompt LocationsResponse])"
  using assms by (simp add: get_location_trends_def Let_def)

lemma answering_extract: "firecrawl_extract (answering raw content) urls prompt sch = Inr raw"
  by (simp add: answering_def)

lemma answering_run: "agent_run (answering raw content) question = Inr content"
  by (simp add: answering_def)

subsection \<open>What the prompts embed\<close>

lemma extraction_prompt_city:
  "sublist city (extraction_prompt P city max_price property_category property_type)"
  unfolding extraction_prompt_def
  by (rule sublist_append_rightI | rule sublist_after)+

lemma extraction_prompt_category:
  "sublist property_category
     (extraction_prompt P city max_price property_category property_type)"
  unfolding extraction_prompt_def
  by (rule sublist_append_rightI | rule sublist_after)+

lemma extraction_prompt_type:
  "sublist (property_type_prompt property_type)
     (extraction_prompt P city max_price property_category property_type)"
  unfolding extraction_prompt_def
  by (rule sublist_append_rightI | rule sublist_after)+

lemma extraction_prompt_price:
  "sublist (float_repr P max_price)
     (extraction_prompt P city max_price property_category property_type)"
  unfolding extraction_prompt_def
  by (rule sublist_append_rightI | rule sublist_after)+

lemma extraction_prompt_count_line:
  "sublist ''                - At least 3 and up to 10 properties\<newline>''
     (extraction_prompt P city max_price property_category property_type)"
  unfolding extraction_prompt_def
  by (rule sublist_append_rightI | rule sublist_after)+

lemma analysis_prompt_city: "sublist city (analysis_prompt P city properties max_price)"
  unfolding analysis_prompt_def
  by (rule sublist_append_rightI | rule sublist_after)+

lemma analysis_prompt_records:
  "sublist (py_str P properties) (analysis_prompt P city properties max_price)"
  unfolding analysis_prompt_def
  by (rule sublist_append_rightI | rule sublist_after)+

lemma trends_prompt_city: "sublist city (trends_prompt P city locations)"
  unfolding trends_prompt_def
  by (rule sublist_append_rightI | rule sublist_after)+

lemma trends_prompt_records:
  "sublist (py_str P locations) (trends_prompt P city locations)"
  unfolding trends_prompt_def
  by (rule sublist_append_rightI | rule sublist_after)+

subsection \<open>The URLs\<close>

lemma template_chars:
  "\<forall>c\<in>set ''https://www.squareyards.com/sale/property-for-sale-in-''.
     (of_char c :: nat) < 128 \<and> \<not> ascii_upper c"
  "\<forall>c\<in>set ''/*''. (of_char c :: nat) < 128 \<and> \<not> ascii_upper c"
  "\<forall>c\<in>set ''https://www.99acres.com/property-in-''.
     (of_char c :: nat) < 128 \<and> \<not> ascii_upper c"
  "\<forall>c\<in>set ''-ffid/*''. (of_char c :: nat) < 128 \<and> \<not> ascii_upper c"
  "\<forall>c\<in>set ''https://housing.com/in/buy/''. (of_char c :: nat) < 128 \<and> \<not> ascii_upper c"
  "\<forall>c\<in>set ''/''. (of_char c :: nat) < 128 \<and> \<not> ascii_upper c"
  "\<forall>c\<in>set ''https://www.99acres.com/property-rates-and-price-trends-in-''.
     (of_char c :: nat) < 128 \<and> \<not> ascii_upper c"
  "\<forall>c\<in>set ''-prffid/*''. (of_char c :: nat) < 128 \<and> \<not> ascii_upper c"
  by (simp_all add: ascii_upper_def)

lemma url_cases:
  assumes "u \<in> set (property_urls P city @ trend_urls P city)"
  obtains
    "u = ''https://www.squareyards.com/sale/property-for-sale-in-'' @ str_lower P city @ ''/*''"
  | "u = ''https://www.99acres.com/property-in-'' @ str_lower P city @ ''-ffid/*''"
  | "u = ''https://housing.com/in/buy/'' @ str_lower P city @ ''/'' @ str_lower P city"
  | "u = ''https://www.99acres.com/property-rates-and-price-trends-in-'' @ str_lower P city @
         ''-prffid/*''"
  using assms unfolding property_urls_def trend_urls_def Let_def
  by (auto simp del: append.simps)

lemma urls_embed_lower:
  assumes "u \<in> set (property_urls P city @ trend_urls P city)"
  shows "sublist (str_lower P city) u"
  using assms by (rule url_cases) (simp_all only: sublist_appendI)

lemma urls_chars:
  assumes "u \<in> set (property_urls P city @ trend_urls P city)" and "c \<in> set u"
  shows "c \<in> set (str_lower P city) \<or> ((of_char c :: nat) < 128 \<and> \<not> ascii_upper c)"
  using assms(1)
proof (rule url_cases)
  assume "u = ''https://www.squareyards.com/sale/property-for-sale-in-'' @ str_lower P city @ ''/*''"
  with assms(2) show ?thesis
    using template_chars by (simp only: set_append Un_iff) blast
next
  assume "u = ''https://www.99acres.com/property-in-'' @ str_lower P city @ ''-ffid/*''"
  with assms(2) show ?thesis
    using template_chars by (simp only: set_append Un_iff) blast
next
  assume "u = ''https://housing.com/in/buy/'' @ str_lower P city @ ''/'' @ str_lower P city"
  with assms(2) show ?thesis
    using template_chars by (simp only: set_append Un_iff) blast
next
  assume "u = ''https://www.99acres.com/property-rates-and-price-trends-in-'' @ str_lower P city @
         ''-prffid/*''"
  with assms(2) show ?thesis
    using template_chars by (simp only: set_append Un_iff) blast
qed

lemma urls_nth_mem:
  "property_urls P city ! 0 \<in> set (property_urls P city @ trend_urls P city)"
  "property_urls P city ! 1 \<in> set (property_urls P city @ trend_urls P city)"
  "property_urls P city ! 2 \<in> set (property_urls P city @ trend_urls P city)"
  "trend_urls P city ! 0 \<in> set (property_urls P city @ trend_urls P city)"
  by (simp_all add: property_urls_def trend_urls_def Let_def del: append.simps)

lemma sample_str_lower: "str_lower sample_interpreter = sample_lower"
  by (simp add: sample_interpreter_def)

lemma sample_char_isupper: "char_isupper sample_interpreter = sample_isupper"
  by (simp add: sample_interpreter_def)

section \<open>The claims\<close>

text \<open>
  C1, as amended. When the response is not a dict, or has no truthy \<^verbatim>\<open>success\<close> entry,
  neither method raises: \<^verbatim>\<open>find_properties\<close> calls the summarizer with the prompt built
  from the empty list and returns what it gives back, and \<^verbatim>\<open>get_location_trends\<close>
  returns its no-data message without calling the summarizer. When the response is
  successful and its \<^verbatim>\<open>data\<close> entry is a dict without the key \<^verbatim>\<open>properties\<close>
  (\<^verbatim>\<open>locations\<close> for the trends), the method calls the summarizer with the prompt built
  from the empty list. When the response is successful and has no \<^verbatim>\<open>data\<close> entry, the
  method ends with KeyError after the extraction call, and the summarizer is not called.
\<close>

theorem C1_fail_soft:
  "(firecrawl_extract S1 (property_urls P city)
      (extraction_prompt P city max_price property_category property_type) PropertiesResponse
      = Inr raw1 \<and> no_truthy_success P raw1 \<longrightarrow>
      find_properties P S1 city max_price property_category property_type log =
        (agent_run S1 (analysis_prompt P city (PList []) max_price),
         log @ [Extract (property_urls P city)
                  (extraction_prompt P city max_price property_category property_type)
                  PropertiesResponse,
                Run (analysis_prompt P city (PList []) max_price)])) \<and>
   (firecrawl_extract S2 (trend_urls P city) trend_extraction_prompt LocationsResponse
      = Inr raw2 \<and> no_truthy_success P raw2 \<longrightarrow>
      get_location_trends P S2 city log =
        (Inr ''No price trends data available'',
         log @ [Extract (trend_urls P city) trend_extraction_prompt LocationsResponse])) \<and>
   (firecrawl_extract S3 (property_urls P city)
      (extraction_prompt P city max_price property_category property_type) PropertiesResponse
      = Inr (PDict kvs3) \<and>
    map_of kvs3 ''success'' = Some v3 \<and> truthy P v3 \<and>
    map_of kvs3 ''data'' = Some (PDict payload3) \<and> map_of payload3 ''properties'' = None \<longrightarrow>
      find_properties P S3 city max_price property_category property_type log =
        (agent_run S3 (analysis_prompt P city (PList []) max_price),
         log @ [Extract (property_urls P city)
                  (extraction_prompt P city max_price property_category property_type)
                  PropertiesResponse,
                Run (analysis_prompt P city (PList []) max_price)])) \<and>
   (firecrawl_extract S4 (trend_urls P city) trend_extraction_prompt LocationsResponse
      = Inr (PDict kvs4) \<and>
    map_of kvs4 ''success'' = Some v4 \<and> truthy P v4 \<and>
    map_of kvs4 ''data'' = Some (PDict payload4) \<and> map_of payload4 ''locations'' = None \<longrightarrow>
      get_location_trends P S4 city log =
        (agent_run S4 (trends_prompt P city (PList [])),
         log @ [Extract (trend_urls P city) trend_extraction_prompt LocationsResponse,
                Run (trends_prompt P city (PList []))])) \<and>
   (firecrawl_extract S5 (property_urls P city)
      (extraction_prompt P city max_price property_category property_type) PropertiesResponse
      = Inr (PDict kvs5) \<and>
    map_of kvs5 ''success'' = Some v5 \<and> truthy P v5 \<and> map_of kvs5 ''data'' = None \<longrightarrow>
      find_properties P S5 city max_price property_category property_type log =
        (Inl (KeyError ''data''),
         log @ [Extract (property_urls P city)
                  (extraction_prompt P city max_price property_category property_type)
                  PropertiesResponse])) \<and>
   (firecrawl_extract S6 (trend_urls P city) trend_extraction_prompt LocationsResponse
      = Inr (PDict kvs6) \<and>
    map_of kvs6 ''success'' = Some v6 \<and> truthy P v6 \<and> map_of kvs6 ''data'' = None \<longrightarrow>
      get_location_trends P S6 city log =
        (Inl (KeyError ''data''),
         log @ [Extract (trend_urls P city) trend_extraction_prompt LocationsResponse]))"
proof (intro conjI impI; elim conjE)
  assume "firecrawl_extract S1 (property_urls P city)
      (extraction_prompt P city max_price property_category property_type) PropertiesResponse
      = Inr raw1" and "no_truthy_success P raw1"
  then show "find_properties P S1 city max_price property_category property_type log =
        (agent_run S1 (analysis_prompt P city (PList []) max_price),
         log @ [Extract (property_urls P city)
                  (extraction_prompt P city max_price property_category property_type)
                  PropertiesResponse,
                Run (analysis_prompt P city (PList []) max_price)])"
    by (simp only: find_properties_selected select_properties_no_success)
next
  assume "firecrawl_extract S2 (trend_urls P city) trend_extraction_prompt LocationsResponse
      = Inr raw2" and "no_truthy_success P raw2"
  then show "get_location_trends P S2 city log =
        (Inr ''No price trends data available'',
         log @ [Extract (trend_urls P city) trend_extraction_prompt LocationsResponse])"
    by (simp only: get_location_trends_no_data select_locations_no_success)
next
  assume "firecrawl_extract S3 (property_urls P city)
      (extraction_prompt P city max_price property_category property_type) PropertiesResponse
      = Inr (PDict kvs3)" and "map_of kvs3 ''success'' = Some v3" and "truthy P v3"
    and "map_of kvs3 ''data'' = Some (PDict payload3)" and "map_of payload3 ''properties'' = None"
  moreover from this have "select_properties P (PDict kvs3) = Inr (PList [])"
    by (simp add: select_properties_success)
  ultimately show "find_properties P S3 city max_price property_category property_type log =
        (agent_run S3 (analysis_prompt P city (PList []) max_price),
         log @ [Extract (property_urls P city)
                  (extraction_prompt P city max_price property_category property_type)
                  PropertiesResponse,
                Run (analysis_prompt P city (PList []) max_price)])"
    by (simp only: find_properties_selected)
next
  assume "firecrawl_extract S4 (trend_urls P city) trend_extraction_prompt LocationsResponse
      = Inr (PDict kvs4)" and "map_of kvs4 ''success'' = Some v4" and "truthy P v4"
    and "map_of kvs4 ''data'' = Some (PDict payload4)" and "map_of payload4 ''locations'' = None"
  moreover from this have "select_locations P (PDict kvs4) = Inr (Some (PList []))"
    by (simp add: select_locations_success)
  ultimately show "get_location_trends P S4 city log =
        (agent_run S4 (trends_prompt P city (PList [])),
         log @ [Extract (trend_urls P city) trend_extraction_prompt LocationsResponse,
                Run (trends_prompt P city (PList []))])"
    by (simp only: get_location_trends_selected)
next
  assume "firecrawl_extract S5 (property_urls P city)
      (extraction_prompt P city max_price property_category property_type) PropertiesResponse
      = Inr (PDict kvs5)" and "map_of kvs5 ''success'' = Some v5" and "truthy P v5"
    and "map_of kvs5 ''data'' = None"
  moreover from this have "select_properties P (PDict kvs5) = Inl (KeyError ''data'')"
    by (simp add: select_properties_no_data)
  ultimately show "find_properties P S5 city max_price property_category property_type log =
        (Inl (KeyError ''data''),
         log @ [Extract (property_urls P city)
                  (extraction_prompt P city max_price property_category property_type)
                  PropertiesResponse])"
    by (simp only: find_properties_raised)
next
  assume "firecrawl_extract S6 (trend_urls P city) trend_extraction_prompt LocationsResponse
      = Inr (PDict kvs6)" and "map_of kvs6 ''success'' = Some v6" and "truthy P v6"
    and "map_of kvs6 ''data'' = None"
  moreover from this have "select_locations P (PDict kvs6) = Inl (KeyError ''data'')"
    by (simp add: select_locations_no_data)
  ultimately show "get_location_trends P S6 city log =
        (Inl (KeyError ''data''),
         log @ [Extract (trend_urls P city) trend_extraction_prompt LocationsResponse])"
    by (simp only: get_location_trends_raised)
qed

text \<open>
  C1, witness: a response that is a plain string; \<^verbatim>\<open>{'success': 0}\<close>; successful
  responses whose payload holds only the other method's key; and a successful response
  with a status and no \<^verbatim>\<open>data\<close>.
\<close>

theorem C1_fail_soft_witness:
  "no_truthy_success sample_interpreter (PStr ''Service Unavailable'') \<and>
   find_properties sample_interpreter (answering (PStr ''Service Unavailable'') ''report'')
       ''Mumbai'' ''5.0'' ''Residential'' ''Flat'' [] =
     (Inr ''report'',
      [Extract (property_urls sample_interpreter ''Mumbai'')
         (extraction_prompt sample_interpreter ''Mumbai'' ''5.0'' ''Residential'' ''Flat'')
         PropertiesResponse,
       Run (analysis_prompt sample_interpreter ''Mumbai'' (PList []) ''5.0'')]) \<and>
   no_truthy_success sample_interpreter (PDict [(''success'', PInt 0)]) \<and>
   get_location_trends sample_interpreter
       (answering (PDict [(''success'', PInt 0)]) ''report'') ''Mumbai'' [] =
     (Inr ''No price trends data available'',
      [Extract (trend_urls sample_interpreter ''Mumbai'') trend_extraction_prompt
         LocationsResponse]) \<and>
   find_properties sample_interpreter
       (answering (PDict [(''success'', PBool True),
                          (''data'', PDict [(''locations'', PList [PStr ''Baner''])])])
          ''report'')
       ''Mumbai'' ''5.0'' ''Residential'' ''Flat'' [] =
     (Inr ''report'',
      [Extract (property_urls sample_interpreter ''Mumbai'')
         (extraction_prompt sample_interpreter ''Mumbai'' ''5.0'' ''Residential'' ''Flat'')
         PropertiesResponse,
       Run (analysis_prompt sample_interpreter ''Mumbai'' (PList []) ''5.0'')]) \<and>
   get_location_trends sample_interpreter
       (answering (PDict [(''success'', PBool True),
                          (''data'', PDict [(''properties'', PList [PStr ''Tower A''])])])
          ''report'')
       ''Mumbai'' [] =
     (Inr ''report'',
      [Extract (trend_urls sample_interpreter ''Mumbai'') trend_extraction_prompt
         LocationsResponse,
       Run (trends_prompt sample_interpreter ''Mumbai'' (PList []))]) \<and>
   find_properties sample_interpreter
       (answering (PDict [(''success'', PStr ''yes''), (''status'', PStr ''completed'')])
          ''report'')
       ''Mumbai'' ''5.0'' ''Residential'' ''Flat'' [] =
     (Inl (KeyError ''data''),
      [Extract (property_urls sample_interpreter ''Mumbai'')
         (extraction_prompt sample_interpreter ''Mumbai'' ''5.0'' ''Residential'' ''Flat'')
         PropertiesResponse]) \<and>
   get_location_trends sample_interpreter
       (answering (PDict [(''success'', PStr ''yes''), (''status'', PStr ''completed'')])
          ''report'')
       ''Mumbai'' [] =
     (Inl (KeyError ''data''),
      [Extract (trend_urls sample_interpreter ''Mumbai'') trend_extraction_prompt
         LocationsResponse])"
  using C1_fail_soft
    [where P = sample_interpreter and city = "''Mumbai''" and max_price = "''5.0''"
       and property_category = "''Residential''" and property_type = "''Flat''"
       and log = "[]"
       and ?S1.0 = "answering (PStr ''Service Unavailable'') ''report''"
       and ?raw1.0 = "PStr ''Service Unavailable''"
       and ?S2.0 = "answering (PDict [(''success'', PInt 0)]) ''report''"
       and ?raw2.0 = "PDict [(''success'', PInt 0)]"
       and ?S3.0 = "answering (PDict [(''success'', PBool True),
                          (''data'', PDict [(''locations'', PList [PStr ''Baner''])])])
          ''report''"
       and ?kvs3.0 = "[(''success'', PBool True),
                          (''data'', PDict [(''locations'', PList [PStr ''Baner''])])]"
       and ?v3.0 = "PBool True"
       and ?payload3.0 = "[(''locations'', PList [PStr ''Baner''])]"
       and ?S4.0 = "answering (PDict [(''success'', PBool True),
                          (''data'', PDict [(''properties'', PList [PStr ''Tower A''])])])
          ''report''"
       and ?kvs4.0 = "[(''success'', PBool True),
                          (''data'', PDict [(''properties'', PList [PStr ''Tower A''])])]"
       and ?v4.0 = "PBool True"
       and ?payload4.0 = "[(''properties'', PList [PStr ''Tower A''])]"
       and ?S5.0 = "answering (PDict [(''success'', PStr ''yes''),
                          (''status'', PStr ''completed'')]) ''report''"
       and ?kvs5.0 = "[(''success'', PStr ''yes''), (''status'', PStr ''completed'')]"
       and ?v5.0 = "PStr ''yes''"
       and ?S6.0 = "answering (PDict [(''success'', PStr ''yes''),
                          (''status'', PStr ''completed'')]) ''report''"
       and ?kvs6.0 = "[(''success'', PStr ''yes''), (''status'', PStr ''completed'')]"
       and ?v6.0 = "PStr ''yes''"]
  by (simp add: answering_extract answering_run no_truthy_success_def)

text \<open>
  C1, counterexample to the claim as stated: the response \<^verbatim>\<open>{'success': True}\<close> has no
  payload at all, and \<^verbatim>\<open>raw_response['data']\<close> raises KeyError, which reaches the
  caller of either method; the summarizer is not called.
\<close>

theorem C1_missing_data_raises:
  "map_of [(''success'', PBool True :: string pyval)] ''data'' = None \<and>
   select_properties sample_interpreter (PDict [(''success'', PBool True)]) = Inl (KeyError ''data'') \<and>
   find_properties sample_interpreter (answering (PDict [(''success'', PBool True)]) ''report'')
       ''Mumbai'' ''5.0'' ''Residential'' ''Flat'' [] =
     (Inl (KeyError ''data''),
      [Extract (property_urls sample_interpreter ''Mumbai'')
         (extraction_prompt sample_interpreter ''Mumbai'' ''5.0'' ''Residential'' ''Flat'')
         PropertiesResponse]) \<and>
   get_location_trends sample_interpreter (answering (PDict [(''success'', PBool True)]) ''report'')
       ''Mumbai'' [] =
     (Inl (KeyError ''data''),
      [Extract (trend_urls sample_interpreter ''Mumbai'') trend_extraction_prompt LocationsResponse])"
proof -
  let ?raw = "PDict [(''success'', PBool True)] :: string pyval"
  have ok: "response_ok sample_interpreter ?raw"
    by (simp add: response_ok_def)
  have p: "select_properties sample_interpreter ?raw = Inl (KeyError ''data'')"
    using ok by (simp add: select_properties_def)
  have l: "select_locations sample_interpreter ?raw = Inl (KeyError ''data'')"
    using ok by (simp add: select_locations_def)
  show ?thesis
    using p find_properties_raised [OF answering_extract p]
      get_location_trends_raised [OF answering_extract l]
    by simp
qed

text \<open>
  C2, as amended. Three URLs for the property search and one for the trends; each contains
  \<^verbatim>\<open>city.lower()\<close>, and every byte of a URL that does not occur in \<^verbatim>\<open>city.lower()\<close> is
  a Basic Latin character other than an upper-case letter. So a URL holds an upper-case
  character only where \<^verbatim>\<open>city.lower()\<close> still holds one. With \<^verbatim>\<open>mumbai\<close> for
  \<^verbatim>\<open>'Mumbai'.lower()\<close>, the three property URLs are the squareyards, 99acres and housing
  ones with \<^verbatim>\<open>mumbai\<close> put in.
\<close>

theorem C2_urls:
  "length (property_urls P city) = 3 \<and> length (trend_urls P city) = 1 \<and>
   (\<forall>u\<in>set (property_urls P city @ trend_urls P city).
      sublist (str_lower P city) u \<and>
      (\<forall>c\<in>set u. c \<in> set (str_lower P city) \<or>
                   ((of_char c :: nat) < 128 \<and> \<not> ascii_upper c))) \<and>
   (str_lower P ''Mumbai'' = ''mumbai'' \<longrightarrow>
      property_urls P ''Mumbai'' =
        [''https://www.squareyards.com/sale/property-for-sale-in-mumbai/*'',
         ''https://www.99acres.com/property-in-mumbai-ffid/*'',
         ''https://housing.com/in/buy/mumbai/mumbai''])"
proof -
  have "length (property_urls P city) = 3" "length (trend_urls P city) = 1"
    by (simp_all add: property_urls_def trend_urls_def Let_def)
  moreover have "\<forall>u\<in>set (property_urls P city @ trend_urls P city).
      sublist (str_lower P city) u \<and>
      (\<forall>c\<in>set u. c \<in> set (str_lower P city) \<or>
                   ((of_char c :: nat) < 128 \<and> \<not> ascii_upper c))"
    using urls_embed_lower urls_chars by blast
  moreover have "str_lower P ''Mumbai'' = ''mumbai'' \<longrightarrow>
      property_urls P ''Mumbai'' =
        [''https://www.squareyards.com/sale/property-for-sale-in-mumbai/*'',
         ''https://www.99acres.com/property-in-mumbai-ffid/*'',
         ''https://housing.com/in/buy/mumbai/mumbai'']"
    by (simp add: property_urls_def)
  ultimately show ?thesis
    by (simp only: simp_thms)
qed

text \<open>
  C2, witness: the sample interpreter, with the cities \<^verbatim>\<open>Mumbai\<close> and \<^verbatim>\<open>New Delhi\<close>.
\<close>

theorem C2_urls_witness:
  "str_lower sample_interpreter ''Mumbai'' = ''mumbai'' \<and>
   property_urls sample_interpreter ''Mumbai'' =
     [''https://www.squareyards.com/sale/property-for-sale-in-mumbai/*'',
      ''https://www.99acres.com/property-in-mumbai-ffid/*'',
      ''https://housing.com/in/buy/mumbai/mumbai''] \<and>
   str_lower sample_interpreter ''New Delhi'' = ''new delhi'' \<and>
   sublist ''new delhi'' (property_urls sample_interpreter ''New Delhi'' ! 0) \<and>
   sublist ''new delhi'' (property_urls sample_interpreter ''New Delhi'' ! 1) \<and>
   sublist ''new delhi'' (property_urls sample_interpreter ''New Delhi'' ! 2) \<and>
   sublist ''new delhi'' (trend_urls sample_interpreter ''New Delhi'' ! 0) \<and>
   filter ascii_upper
     (concat (property_urls sample_interpreter ''New Delhi'' @
              trend_urls sample_interpreter ''New Delhi'')) = []"
proof -
  have m: "str_lower sample_interpreter ''Mumbai'' = ''mumbai''"
    unfolding sample_str_lower by code_simp
  have l: "str_lower sample_interpreter ''New Delhi'' = ''new delhi''"
    unfolding sample_str_lower by code_simp
  have n: "\<forall>c\<in>set ''new delhi''. \<not> ascii_upper c"
    by (simp add: ascii_upper_def)
  have u: "\<forall>u\<in>set (property_urls sample_interpreter ''New Delhi'' @
                    trend_urls sample_interpreter ''New Delhi'').
             sublist ''new delhi'' u \<and> (\<forall>c\<in>set u. \<not> ascii_upper c)"
    using C2_urls [where P = sample_interpreter and city = "''New Delhi''"] n
    unfolding l by blast
  have p: "property_urls sample_interpreter ''Mumbai'' =
     [''https://www.squareyards.com/sale/property-for-sale-in-mumbai/*'',
      ''https://www.99acres.com/property-in-mumbai-ffid/*'',
      ''https://housing.com/in/buy/mumbai/mumbai'']"
    using C2_urls [where P = sample_interpreter and city = "''New Delhi''"] m by blast
  have f: "filter ascii_upper
     (concat (property_urls sample_interpreter ''New Delhi'' @
              trend_urls sample_interpreter ''New Delhi'')) = []"
    using u unfolding filter_empty_conv set_concat by blast
  show ?thesis
    using m l p f u urls_nth_mem [of sample_interpreter "''New Delhi''"]
    by (simp only: simp_thms)
qed

text \<open>
  C2, counterexample to the claim as stated: the city made of the one character U+03D2
  (bytes CF 92), which is upper-case and which \<^verbatim>\<open>str.lower\<close> leaves as it is. All
  four URLs contain it.
\<close>

theorem C2_upper_case_survives:
  "str_lower sample_interpreter [CHR 0xCF, CHR 0x92] = [CHR 0xCF, CHR 0x92] \<and>
   char_isupper sample_interpreter [CHR 0xCF, CHR 0x92] \<and>
   sublist [CHR 0xCF, CHR 0x92] (property_urls sample_interpreter [CHR 0xCF, CHR 0x92] ! 0) \<and>
   sublist [CHR 0xCF, CHR 0x92] (property_urls sample_interpreter [CHR 0xCF, CHR 0x92] ! 1) \<and>
   sublist [CHR 0xCF, CHR 0x92] (property_urls sample_interpreter [CHR 0xCF, CHR 0x92] ! 2) \<and>
   sublist [CHR 0xCF, CHR 0x92] (trend_urls sample_interpreter [CHR 0xCF, CHR 0x92] ! 0)"
proof -
  have l: "str_lower sample_interpreter [CHR 0xCF, CHR 0x92] = [CHR 0xCF, CHR 0x92]"
    unfolding sample_str_lower by code_simp
  have i: "char_isupper sample_interpreter [CHR 0xCF, CHR 0x92]"
    unfolding sample_char_isupper by simp
  show ?thesis
    using l i urls_embed_lower [OF urls_nth_mem(1), of sample_interpreter "[CHR 0xCF, CHR 0x92]"]
      urls_embed_lower [OF urls_nth_mem(2), of sample_interpreter "[CHR 0xCF, CHR 0x92]"]
      urls_embed_lower [OF urls_nth_mem(3), of sample_interpreter "[CHR 0xCF, CHR 0x92]"]
      urls_embed_lower [OF urls_nth_mem(4), of sample_interpreter "[CHR 0xCF, CHR 0x92]"]
    by (simp only: simp_thms)
qed

text \<open>
  C3. When the extraction backend answers with a dict whose \<^verbatim>\<open>success\<close> entry is
  \<^verbatim>\<open>False\<close>, \<^verbatim>\<open>find_properties\<close> does not stop: after the extraction call it calls
  the summarizer once, with the analysis prompt built from the empty list (rendered
  \<^verbatim>\<open>[]\<close>), and what the summarizer gives back is the result of the method.
\<close>

theorem C3_failed_extraction_summarized:
  assumes "firecrawl_extract S (property_urls P city)
             (extraction_prompt P city max_price property_category property_type)
             PropertiesResponse = Inr (PDict kvs)"
    and "map_of kvs ''success'' = Some (PBool False)"
  shows "find_properties P S city max_price property_category property_type log =
           (agent_run S (analysis_prompt P city (PList []) max_price),
            log @ [Extract (property_urls P city)
                     (extraction_prompt P city max_price property_category property_type)
                     PropertiesResponse,
                   Run (analysis_prompt P city (PList []) max_price)]) \<and>
         sublist ''[]'' (analysis_prompt P city (PList []) max_price)"
proof -
  have "no_truthy_success P (PDict kvs)"
    using assms(2) by (simp add: no_truthy_success_def)
  then have "select_properties P (PDict kvs) = Inr (PList [])"
    by (rule select_properties_no_success)
  with assms(1) have "find_properties P S city max_price property_category property_type log =
           (agent_run S (analysis_prompt P city (PList []) max_price),
            log @ [Extract (property_urls P city)
                     (extraction_prompt P city max_price property_category property_type)
                     PropertiesResponse,
                   Run (analysis_prompt P city (PList []) max_price)])"
    by (rule find_properties_selected)
  moreover have "sublist ''[]'' (analysis_prompt P city (PList []) max_price)"
    using analysis_prompt_records [of P "PList []" city max_price]
    by (simp only: py_str_empty_list)
  ultimately show ?thesis by simp
qed

text \<open>
  C3, witness: the response \<^verbatim>\<open>{'success': False}\<close> for the search of Scenario A, with a
  summarizer that answers \<^verbatim>\<open>report\<close>.
\<close>

theorem C3_failed_extraction_summarized_witness:
  "find_properties sample_interpreter (answering (PDict [(''success'', PBool False)]) ''report'')
       ''Mumbai'' ''5.0'' ''Residential'' ''Flat'' [] =
     (Inr ''report'',
      [Extract (property_urls sample_interpreter ''Mumbai'')
         (extraction_prompt sample_interpreter ''Mumbai'' ''5.0'' ''Residential'' ''Flat'')
         PropertiesResponse,
       Run (analysis_prompt sample_interpreter ''Mumbai'' (PList []) ''5.0'')])"
proof -
  have h: "map_of [(''success'', PBool False :: string pyval)] ''success'' = Some (PBool False)"
    by simp
  show ?thesis
    using C3_failed_extraction_summarized
      [where P = sample_interpreter and city = "''Mumbai''" and max_price = "''5.0''"
         and property_category = "''Residential''" and property_type = "''Flat''"
         and log = "[]" and S = "answering (PDict [(''success'', PBool False)]) ''report''",
       OF answering_extract h]
    by (simp add: answering_run)
qed

text \<open>
  C4. When the response has no truthy success indicator, \<^verbatim>\<open>get_location_trends\<close>
  returns the fixed no-data text, and the only call in the log is the extraction call: the
  summarizer is not invoked.
\<close>

theorem C4_no_data_message:
  assumes "firecrawl_extract S (trend_urls P city) trend_extraction_prompt LocationsResponse = Inr raw"
    and "no_truthy_success P raw"
  shows "get_location_trends P S city log =
           (Inr ''No price trends data available'',
            log @ [Extract (trend_urls P city) trend_extraction_prompt LocationsResponse])"
  using assms(1) select_locations_no_success [OF assms(2)]
  by (rule get_location_trends_no_data)

text \<open>
  C4, witness: the response \<^verbatim>\<open>{'success': False}\<close>.
\<close>

theorem C4_no_data_message_witness:
  "no_truthy_success sample_interpreter (PDict [(''success'', PBool False)]) \<and>
   get_location_trends sample_interpreter (answering (PDict [(''success'', PBool False)]) ''report'')
       ''Pune'' [] =
     (Inr ''No price trends data available'',
      [Extract (trend_urls sample_interpreter ''Pune'') trend_extraction_prompt LocationsResponse])"
proof -
  have h: "no_truthy_success sample_interpreter (PDict [(''success'', PBool False)])"
    by (simp add: no_truthy_success_def)
  show ?thesis
    using h C4_no_data_message
      [where city = "''Pune''" and log = "[]"
         and S = "answering (PDict [(''success'', PBool False)]) ''report''",
       OF answering_extract h]
    by simp
qed

text \<open>
  C5. A successful response whose payload has an empty \<^verbatim>\<open>locations\<close> list is not
  short-circuited: \<^verbatim>\<open>get_location_trends\<close> calls the summarizer with the prompt built
  from the empty list and returns what the summarizer gives back.
\<close>

theorem C5_empty_locations_summarized:
  assumes "firecrawl_extract S (trend_urls P city) trend_extraction_prompt LocationsResponse
           = Inr (PDict kvs)"
    and "map_of kvs ''success'' = Some (PBool True)"
    and "map_of kvs ''data'' = Some (PDict payload)"
    and "map_of payload ''locations'' = Some (PList [])"
  shows "get_location_trends P S city log =
           (agent_run S (trends_prompt P city (PList [])),
            log @ [Extract (trend_urls P city) trend_extraction_prompt LocationsResponse,
                   Run (trends_prompt P city (PList []))])"
proof -
  have "truthy P (PBool True)" by simp
  with assms(2) have "select_locations P (PDict kvs) =
      Inr (Some (case map_of payload ''locations'' of None \<Rightarrow> PList [] | Some records \<Rightarrow> records))"
    using assms(3) by (rule select_locations_success)
  then have "select_locations P (PDict kvs) = Inr (Some (PList []))"
    using assms(4) by simp
  with assms(1) show ?thesis
    by (rule get_location_trends_selected)
qed

text \<open>
  C5, witness: the response \<^verbatim>\<open>{'success': True, 'data': {'locations': []}}\<close>.
\<close>

theorem C5_empty_locations_summarized_witness:
  "get_location_trends sample_interpreter
       (answering (PDict [(''success'', PBool True),
                          (''data'', PDict [(''locations'', PList [])])]) ''report'')
       ''Pune'' [] =
     (Inr ''report'',
      [Extract (trend_urls sample_interpreter ''Pune'') trend_extraction_prompt LocationsResponse,
       Run (trends_prompt sample_interpreter ''Pune'' (PList []))])"
proof -
  let ?payload = "[(''locations'', PList [])] :: (string \<times> string pyval) list"
  let ?kvs = "[(''success'', PBool True), (''data'', PDict ?payload)]"
  have h1: "map_of ?kvs ''success'' = Some (PBool True)" by simp
  have h2: "map_of ?kvs ''data'' = Some (PDict ?payload)" by simp
  have h3: "map_of ?payload ''locations'' = Some (PList [])" by simp
  show ?thesis
    using C5_empty_locations_summarized
      [where P = sample_interpreter and city = "''Pune''" and log = "[]"
         and S = "answering (PDict ?kvs) ''report''",
       OF answering_extract h1 h2 h3]
    by (simp add: answering_run)
qed

text \<open>
  C6. For a dict with a truthy \<^verbatim>\<open>success\<close> entry whose \<^verbatim>\<open>data\<close> entry is a dict
  holding the record list, the collection a method goes on with is that very list (the same
  records, as many, in the same order), and the method passes it on: the summarizer is
  called with the prompt built from that list.
\<close>

theorem C6_records_passed_on:
  "(firecrawl_extract S (property_urls P city)
      (extraction_prompt P city max_price property_category property_type) PropertiesResponse
      = Inr (PDict kvs) \<and>
    map_of kvs ''success'' = Some v \<and> truthy P v \<and>
    map_of kvs ''data'' = Some (PDict payload) \<and>
    map_of payload ''properties'' = Some (PList records) \<longrightarrow>
      select_properties P (PDict kvs) = Inr (PList records) \<and>
      find_properties P S city max_price property_category property_type log =
        (agent_run S (analysis_prompt P city (PList records) max_price),
         log @ [Extract (property_urls P city)
                  (extraction_prompt P city max_price property_category property_type)
                  PropertiesResponse,
                Run (analysis_prompt P city (PList records) max_price)])) \<and>
   (firecrawl_extract S' (trend_urls P city) trend_extraction_prompt LocationsResponse
      = Inr (PDict kvs') \<and>
    map_of kvs' ''success'' = Some v' \<and> truthy P v' \<and>
    map_of kvs' ''data'' = Some (PDict payload') \<and>
    map_of payload' ''locations'' = Some (PList records') \<longrightarrow>
      select_locations P (PDict kvs') = Inr (Some (PList records')) \<and>
      get_location_trends P S' city log =
        (agent_run S' (trends_prompt P city (PList records')),
         log @ [Extract (trend_urls P city) trend_extraction_prompt LocationsResponse,
                Run (trends_prompt P city (PList records'))]))"
proof (intro conjI impI; elim conjE)
  assume "firecrawl_extract S (property_urls P city)
      (extraction_prompt P city max_price property_category property_type) PropertiesResponse
      = Inr (PDict kvs)" and "map_of kvs ''success'' = Some v" and "truthy P v"
    and "map_of kvs ''data'' = Some (PDict payload)"
    and "map_of payload ''properties'' = Some (PList records)"
  moreover from this show s: "select_properties P (PDict kvs) = Inr (PList records)"
    by (simp add: select_properties_success)
  ultimately show "find_properties P S city max_price property_category property_type log =
        (agent_run S (analysis_prompt P city (PList records) max_price),
         log @ [Extract (property_urls P city)
                  (extraction_prompt P city max_price property_category property_type)
                  PropertiesResponse,
                Run (analysis_prompt P city (PList records) max_price)])"
    by (simp only: find_properties_selected)
next
  assume "firecrawl_extract S' (trend_urls P city) trend_extraction_prompt LocationsResponse
      = Inr (PDict kvs')" and "map_of kvs' ''success'' = Some v'" and "truthy P v'"
    and "map_of kvs' ''data'' = Some (PDict payload')"
    and "map_of payload' ''locations'' = Some (PList records')"
  moreover from this show s: "select_locations P (PDict kvs') = Inr (Some (PList records'))"
    by (simp add: select_locations_success)
  ultimately show "get_location_trends P S' city log =
        (agent_run S' (trends_prompt P city (PList records')),
         log @ [Extract (trend_urls P city) trend_extraction_prompt LocationsResponse,
                Run (trends_prompt P city (PList records'))])"
    by (simp only: get_location_trends_selected)
qed

text \<open>
  C6, witness: two property records, and three location records of which two are equal.
\<close>

theorem C6_records_passed_on_witness:
  "truthy sample_interpreter (PBool True) \<and>
   find_properties sample_interpreter
       (answering
          (PDict [(''success'', PBool True),
                  (''data'', PDict [(''properties'',
                     PList [PDict [(''Building_name'', PStr ''A'')],
                            PDict [(''Building_name'', PStr ''B'')]])])])
          ''report'')
       ''Mumbai'' ''5.0'' ''Residential'' ''Flat'' [] =
     (Inr ''report'',
      [Extract (property_urls sample_interpreter ''Mumbai'')
         (extraction_prompt sample_interpreter ''Mumbai'' ''5.0'' ''Residential'' ''Flat'')
         PropertiesResponse,
       Run (analysis_prompt sample_interpreter ''Mumbai''
              (PList [PDict [(''Building_name'', PStr ''A'')],
                      PDict [(''Building_name'', PStr ''B'')]]) ''5.0'')]) \<and>
   truthy sample_interpreter (PInt 1) \<and>
   get_location_trends sample_interpreter
       (answering
          (PDict [(''success'', PInt 1),
                  (''data'', PDict [(''locations'',
                     PList [PDict [(''location'', PStr ''Baner'')],
                            PDict [(''location'', PStr ''Wakad'')],
                            PDict [(''location'', PStr ''Baner'')]])])])
          ''report'')
       ''Pune'' [] =
     (Inr ''report'',
      [Extract (trend_urls sample_interpreter ''Pune'') trend_extraction_prompt LocationsResponse,
       Run (trends_prompt sample_interpreter ''Pune''
              (PList [PDict [(''location'', PStr ''Baner'')],
                      PDict [(''location'', PStr ''Wakad'')],
                      PDict [(''location'', PStr ''Baner'')]]))])"
proof -
  let ?props = "[PDict [(''Building_name'', PStr ''A'')],
                 PDict [(''Building_name'', PStr ''B'')]] :: string pyval list"
  let ?locs = "[PDict [(''location'', PStr ''Baner'')],
                PDict [(''location'', PStr ''Wakad'')],
                PDict [(''location'', PStr ''Baner'')]] :: string pyval list"
  let ?kvs = "[(''success'', PBool True), (''data'', PDict [(''properties'', PList ?props)])]"
  let ?kvs' = "[(''success'', PInt 1), (''data'', PDict [(''locations'', PList ?locs)])]"
  have a: "find_properties sample_interpreter (answering (PDict ?kvs) ''report'')
       ''Mumbai'' ''5.0'' ''Residential'' ''Flat'' [] =
     (Inr ''report'',
      [Extract (property_urls sample_interpreter ''Mumbai'')
         (extraction_prompt sample_interpreter ''Mumbai'' ''5.0'' ''Residential'' ''Flat'')
         PropertiesResponse,
       Run (analysis_prompt sample_interpreter ''Mumbai'' (PList ?props) ''5.0'')])"
    using C6_records_passed_on
      [where P = sample_interpreter and city = "''Mumbai''" and max_price = "''5.0''"
         and property_category = "''Residential''" and property_type = "''Flat''"
         and log = "[]" and S = "answering (PDict ?kvs) ''report''" and kvs = ?kvs
         and v = "PBool True" and payload = "[(''properties'', PList ?props)]"
         and records = ?props]
    by (simp add: answering_extract answering_run)
  have b: "get_location_trends sample_interpreter (answering (PDict ?kvs') ''report'')
       ''Pune'' [] =
     (Inr ''report'',
      [Extract (trend_urls sample_interpreter ''Pune'') trend_extraction_prompt LocationsResponse,
       Run (trends_prompt sample_interpreter ''Pune'' (PList ?locs))])"
    using C6_records_passed_on
      [where P = sample_interpreter and city = "''Pune''" and log = "[]"
         and S' = "answering (PDict ?kvs') ''report''" and kvs' = ?kvs'
         and v' = "PInt 1" and payload' = "[(''locations'', PList ?locs)]"
         and records' = ?locs]
    by (simp add: answering_extract answering_run)
  show ?thesis
    using a b by simp
qed

text \<open>
  C7. The request a method sends to the extraction backend (the first entry it appends to
  the log) is determined by the parameters alone: the URL list and the instruction text are
  the same whatever the services answer and whatever was logged before.
\<close>

theorem C7_requests_depend_on_parameters_only:
  "snd (find_properties P S city max_price property_category property_type log) ! length log =
     Extract (property_urls P city)
       (extraction_prompt P city max_price property_category property_type) PropertiesResponse \<and>
   snd (find_properties P S' city max_price property_category property_type log') ! length log' =
     snd (find_properties P S city max_price property_category property_type log) ! length log \<and>
   snd (get_location_trends P S city log) ! length log =
     Extract (trend_urls P city) trend_extraction_prompt LocationsResponse \<and>
   snd (get_location_trends P S' city log') ! length log' =
     snd (get_location_trends P S city log) ! length log"
proof -
  have f: "snd (find_properties P T city max_price property_category property_type l) ! length l =
     Extract (property_urls P city)
       (extraction_prompt P city max_price property_category property_type) PropertiesResponse"
    for T :: "'a services" and l
    by (simp add: find_properties_def Let_def nth_append split: sum.splits)
  have g: "snd (get_location_trends P T city l) ! length l =
     Extract (trend_urls P city) trend_extraction_prompt LocationsResponse"
    for T :: "'a services" and l
    by (simp add: get_location_trends_def Let_def nth_append split: sum.splits option.splits)
  show ?thesis
    by (simp only: f g)
qed

text \<open>
  C8. The URLs of both methods embed \<^verbatim>\<open>city.lower()\<close>; the extraction instruction and the
  analysis prompt of \<^verbatim>\<open>find_properties\<close>, and the summarization prompt of
  \<^verbatim>\<open>get_location_trends\<close>, embed the city as it was supplied.
\<close>

theorem C8_city_case:
  "sublist (str_lower P city) (property_urls P city ! 0) \<and>
   sublist (str_lower P city) (property_urls P city ! 1) \<and>
   sublist (str_lower P city) (property_urls P city ! 2) \<and>
   sublist (str_lower P city) (trend_urls P city ! 0) \<and>
   sublist city (extraction_prompt P city max_price property_category property_type) \<and>
   sublist city (analysis_prompt P city properties max_price) \<and>
   sublist city (trends_prompt P city locations)"
  by (simp only: urls_embed_lower [OF urls_nth_mem(1)] urls_embed_lower [OF urls_nth_mem(2)]
        urls_embed_lower [OF urls_nth_mem(3)] urls_embed_lower [OF urls_nth_mem(4)]
        extraction_prompt_city analysis_prompt_city trends_prompt_city simp_thms)

text \<open>
  C8, witness: with the sample interpreter and the city \<^verbatim>\<open>New Delhi\<close>, the URLs hold
  \<^verbatim>\<open>new delhi\<close> and not \<^verbatim>\<open>New Delhi\<close>, and the three prompts hold \<^verbatim>\<open>New Delhi\<close> and
  not \<^verbatim>\<open>new delhi\<close>. The first URL is also given for two cities outside Basic Latin:
  one with U+00DC (C3 9C), lowered to U+00FC (C3 BC), and one that starts with U+0130.
\<close>

theorem C8_city_case_witness:
  "str_lower sample_interpreter ''New Delhi'' = ''new delhi'' \<and>
   property_urls sample_interpreter ''New Delhi'' =
     [''https://www.squareyards.com/sale/property-for-sale-in-new delhi/*'',
      ''https://www.99acres.com/property-in-new delhi-ffid/*'',
      ''https://housing.com/in/buy/new delhi/new delhi''] \<and>
   trend_urls sample_interpreter ''New Delhi'' =
     [''https://www.99acres.com/property-rates-and-price-trends-in-new delhi-prffid/*''] \<and>
   sublist ''new delhi'' (property_urls sample_interpreter ''New Delhi'' ! 0) \<and>
   sublist ''new delhi'' (property_urls sample_interpreter ''New Delhi'' ! 1) \<and>
   sublist ''new delhi'' (property_urls sample_interpreter ''New Delhi'' ! 2) \<and>
   sublist ''new delhi'' (trend_urls sample_interpreter ''New Delhi'' ! 0) \<and>
   \<not> sublist ''New Delhi'' (property_urls sample_interpreter ''New Delhi'' ! 0) \<and>
   \<not> sublist ''New Delhi'' (property_urls sample_interpreter ''New Delhi'' ! 1) \<and>
   \<not> sublist ''New Delhi'' (property_urls sample_interpreter ''New Delhi'' ! 2) \<and>
   \<not> sublist ''New Delhi'' (trend_urls sample_interpreter ''New Delhi'' ! 0) \<and>
   sublist ''New Delhi''
     (extraction_prompt sample_interpreter ''New Delhi'' ''5.0'' ''Residential'' ''Flat'') \<and>
   \<not> sublist ''new delhi''
     (extraction_prompt sample_interpreter ''New Delhi'' ''5.0'' ''Residential'' ''Flat'') \<and>
   sublist ''New Delhi'' (analysis_prompt sample_interpreter ''New Delhi'' (PList []) ''5.0'') \<and>
   \<not> sublist ''new delhi''
     (analysis_prompt sample_interpreter ''New Delhi'' (PList []) ''5.0'') \<and>
   sublist ''New Delhi'' (trends_prompt sample_interpreter ''New Delhi'' (PList [])) \<and>
   \<not> sublist ''new delhi'' (trends_prompt sample_interpreter ''New Delhi'' (PList [])) \<and>
   property_urls sample_interpreter (''M'' @ [CHR 0xC3, CHR 0x9C] @ ''NCHEN'') ! 0 =
     ''https://www.squareyards.com/sale/property-for-sale-in-m'' @ [CHR 0xC3, CHR 0xBC] @
     ''nchen/*'' \<and>
   property_urls sample_interpreter ([CHR 0xC4, CHR 0xB0] @ ''stanbul'') ! 0 =
     ''https://www.squareyards.com/sale/property-for-sale-in-i'' @ [CHR 0xCC, CHR 0x87] @
     ''stanbul/*''"
proof -
  have l: "str_lower sample_interpreter ''New Delhi'' = ''new delhi''"
    unfolding sample_str_lower by code_simp
  have u: "property_urls sample_interpreter ''New Delhi'' =
     [''https://www.squareyards.com/sale/property-for-sale-in-new delhi/*'',
      ''https://www.99acres.com/property-in-new delhi-ffid/*'',
      ''https://housing.com/in/buy/new delhi/new delhi'']"
    "trend_urls sample_interpreter ''New Delhi'' =
     [''https://www.99acres.com/property-rates-and-price-trends-in-new delhi-prffid/*'']"
    by (simp_all add: property_urls_def trend_urls_def l)
  have n: "\<not> sublist ''New Delhi'' (property_urls sample_interpreter ''New Delhi'' ! 0)"
    "\<not> sublist ''New Delhi'' (property_urls sample_interpreter ''New Delhi'' ! 1)"
    "\<not> sublist ''New Delhi'' (property_urls sample_interpreter ''New Delhi'' ! 2)"
    "\<not> sublist ''New Delhi'' (trend_urls sample_interpreter ''New Delhi'' ! 0)"
    unfolding u by code_simp+
  have q: "\<not> sublist ''new delhi''
     (extraction_prompt sample_interpreter ''New Delhi'' ''5.0'' ''Residential'' ''Flat'')"
    "\<not> sublist ''new delhi''
     (analysis_prompt sample_interpreter ''New Delhi'' (PList []) ''5.0'')"
    "\<not> sublist ''new delhi'' (trends_prompt sample_interpreter ''New Delhi'' (PList []))"
    by code_simp+
  have m: "property_urls sample_interpreter (''M'' @ [CHR 0xC3, CHR 0x9C] @ ''NCHEN'') ! 0 =
     ''https://www.squareyards.com/sale/property-for-sale-in-m'' @ [CHR 0xC3, CHR 0xBC] @
     ''nchen/*''"
    "property_urls sample_interpreter ([CHR 0xC4, CHR 0xB0] @ ''stanbul'') ! 0 =
     ''https://www.squareyards.com/sale/property-for-sale-in-i'' @ [CHR 0xCC, CHR 0x87] @
     ''stanbul/*''"
    by code_simp+
  have c: "sublist ''new delhi'' (property_urls sample_interpreter ''New Delhi'' ! 0) \<and>
   sublist ''new delhi'' (property_urls sample_interpreter ''New Delhi'' ! 1) \<and>
   sublist ''new delhi'' (property_urls sample_interpreter ''New Delhi'' ! 2) \<and>
   sublist ''new delhi'' (trend_urls sample_interpreter ''New Delhi'' ! 0) \<and>
   sublist ''New Delhi''
     (extraction_prompt sample_interpreter ''New Delhi'' ''5.0'' ''Residential'' ''Flat'') \<and>
   sublist ''New Delhi'' (analysis_prompt sample_interpreter ''New Delhi'' (PList []) ''5.0'') \<and>
   sublist ''New Delhi'' (trends_prompt sample_interpreter ''New Delhi'' (PList []))"
    using C8_city_case [where P = sample_interpreter and city = "''New Delhi''"
        and max_price = "''5.0''" and property_category = "''Residential''"
        and property_type = "''Flat''" and properties = "PList []" and locations = "PList []"]
    unfolding l .
  show ?thesis
    using l u n q m c by (simp only: simp_thms)
qed

text \<open>
  C9, as amended. The instruction embeds the category, the type label (\<^verbatim>\<open>Flats\<close> for
  \<^verbatim>\<open>Flat\<close>, \<^verbatim>\<open>Individual Houses\<close> for \<^verbatim>\<open>Individual House\<close>), the rendered maximum
  price, the city, and the constraint in the words
  \<^verbatim>\<open>At least 3 and up to 10 properties\<close>.
\<close>

theorem C9_instruction_embeds:
  "property_type_prompt ''Flat'' = ''Flats'' \<and>
   property_type_prompt ''Individual House'' = ''Individual Houses'' \<and>
   sublist property_category
     (extraction_prompt P city max_price property_category property_type) \<and>
   sublist (property_type_prompt property_type)
     (extraction_prompt P city max_price property_category property_type) \<and>
   sublist (float_repr P max_price)
     (extraction_prompt P city max_price property_category property_type) \<and>
   sublist city (extraction_prompt P city max_price property_category property_type) \<and>
   sublist ''At least 3 and up to 10 properties''
     (extraction_prompt P city max_price property_category property_type)"
proof -
  have "sublist ''At least 3 and up to 10 properties''
          ''                - At least 3 and up to 10 properties\<newline>''"
    by code_simp
  then have "sublist ''At least 3 and up to 10 properties''
     (extraction_prompt P city max_price property_category property_type)"
    by (rule sublist_order.order.trans) (rule extraction_prompt_count_line)
  moreover have "property_type_prompt ''Flat'' = ''Flats''"
    "property_type_prompt ''Individual House'' = ''Individual Houses''"
    by (simp_all add: property_type_prompt_def)
  ultimately show ?thesis
    by (simp only: extraction_prompt_category extraction_prompt_type extraction_prompt_price
          extraction_prompt_city simp_thms)
qed

text \<open>
  C9, counterexample to the claim as stated: for the search of Scenario A the instruction
  does not contain the text \<^verbatim>\<open>at least 3 and up to 10 records\<close>.
\<close>

theorem C9_count_phrase_absent:
  "\<not> sublist ''at least 3 and up to 10 records''
       (extraction_prompt sample_interpreter ''Mumbai'' ''5.0'' ''Residential'' ''Flat'')"
  by code_simp

text \<open>
  C10. A successful response whose \<^verbatim>\<open>data\<close> entry is a dict without the record-list
  key counts as a success with no records: \<^verbatim>\<open>get_location_trends\<close> calls the
  summarizer with the prompt built from the empty list and returns what it gives back, not
  the no-data text; \<^verbatim>\<open>find_properties\<close> does the same with its own prompt.
\<close>

theorem C10_missing_record_key:
  "(firecrawl_extract S (trend_urls P city) trend_extraction_prompt LocationsResponse
      = Inr (PDict kvs) \<and>
    map_of kvs ''success'' = Some v \<and> truthy P v \<and>
    map_of kvs ''data'' = Some (PDict payload) \<and> map_of payload ''locations'' = None \<longrightarrow>
      get_location_trends P S city log =
        (agent_run S (trends_prompt P city (PList [])),
         log @ [Extract (trend_urls P city) trend_extraction_prompt LocationsResponse,
                Run (trends_prompt P city (PList []))])) \<and>
   (firecrawl_extract S' (property_urls P city)
      (extraction_prompt P city max_price property_category property_type) PropertiesResponse
      = Inr (PDict kvs') \<and>
    map_of kvs' ''success'' = Some v' \<and> truthy P v' \<and>
    map_of kvs' ''data'' = Some (PDict payload') \<and> map_of payload' ''properties'' = None \<longrightarrow>
      find_properties P S' city max_price property_category property_type log =
        (agent_run S' (analysis_prompt P city (PList []) max_price),
         log @ [Extract (property_urls P city)
                  (extraction_prompt P city max_price property_category property_type)
                  PropertiesResponse,
                Run (analysis_prompt P city (PList []) max_price)]))"
proof (intro conjI impI)
  assume a: "firecrawl_extract S (trend_urls P city) trend_extraction_prompt LocationsResponse
      = Inr (PDict kvs) \<and>
    map_of kvs ''success'' = Some v \<and> truthy P v \<and>
    map_of kvs ''data'' = Some (PDict payload) \<and> map_of payload ''locations'' = None"
  then have "select_locations P (PDict kvs) = Inr (Some (PList []))"
    by (simp add: select_locations_success)
  with a show "get_location_trends P S city log =
        (agent_run S (trends_prompt P city (PList [])),
         log @ [Extract (trend_urls P city) trend_extraction_prompt LocationsResponse,
                Run (trends_prompt P city (PList []))])"
    by (simp only: get_location_trends_selected)
next
  assume a: "firecrawl_extract S' (property_urls P city)
      (extraction_prompt P city max_price property_category property_type) PropertiesResponse
      = Inr (PDict kvs') \<and>
    map_of kvs' ''success'' = Some v' \<and> truthy P v' \<and>
    map_of kvs' ''data'' = Some (PDict payload') \<and> map_of payload' ''properties'' = None"
  then have "select_properties P (PDict kvs') = Inr (PList [])"
    by (simp add: select_properties_success)
  with a show "find_properties P S' city max_price property_category property_type log =
        (agent_run S' (analysis_prompt P city (PList []) max_price),
         log @ [Extract (property_urls P city)
                  (extraction_prompt P city max_price property_category property_type)
                  PropertiesResponse,
                Run (analysis_prompt P city (PList []) max_price)])"
    by (simp only: find_properties_selected)
qed

text \<open>
  C10, witness: the response \<^verbatim>\<open>{'success': True, 'data': {}}\<close> for both methods.
\<close>

theorem C10_missing_record_key_witness:
  "truthy sample_interpreter (PBool True) \<and>
   get_location_trends sample_interpreter
       (answering (PDict [(''success'', PBool True), (''data'', PDict [])]) ''report'')
       ''Pune'' [] =
     (Inr ''report'',
      [Extract (trend_urls sample_interpreter ''Pune'') trend_extraction_prompt LocationsResponse,
       Run (trends_prompt sample_interpreter ''Pune'' (PList []))]) \<and>
   find_properties sample_interpreter
       (answering (PDict [(''success'', PBool True), (''data'', PDict [])]) ''report'')
       ''Pune'' ''5.0'' ''Commercial'' ''Individual House'' [] =
     (Inr ''report'',
      [Extract (property_urls sample_interpreter ''Pune'')
         (extraction_prompt sample_interpreter ''Pune'' ''5.0'' ''Commercial'' ''Individual House'')
         PropertiesResponse,
       Run (analysis_prompt sample_interpreter ''Pune'' (PList []) ''5.0'')])"
  using C10_missing_record_key
    [where P = sample_interpreter and city = "''Pune''" and max_price = "''5.0''"
       and property_category = "''Commercial''" and property_type = "''Individual House''"
       and log = "[]" and v = "PBool True" and v' = "PBool True"
       and payload = "[]" and payload' = "[]"
       and kvs = "[(''success'', PBool True), (''data'', PDict [])]"
       and kvs' = "[(''success'', PBool True), (''data'', PDict [])]"
       and S = "answering (PDict [(''success'', PBool True), (''data'', PDict [])]) ''report''"
       and S' = "answering (PDict [(''success'', PBool True), (''data'', PDict [])]) ''report''"]
  by (simp add: answering_extract answering_run)

end
